theory Spec2Isabelle
  imports Complex_Main
begin

section \<open>Beacon-chain numeric analytics: a shallow embedding of the report scripts\<close>

text \<open>
  The scripts under \<^verbatim>\<open>scripts/\<close> are Python. Python's unbounded \<^verbatim>\<open>int\<close> is
  modelled as \<^typ>\<open>int\<close>; floor division \<^verbatim>\<open>//\<close> on ints is \<open>div\<close> on \<^typ>\<open>int\<close>
  (both round towards minus infinity). A Python \<^verbatim>\<open>float\<close> is given by the real number it stands for, and
  an operation on floats by the exact operation on \<^typ>\<open>real\<close>: the rounding of doubles is
  not modelled. The conversion of an \<^verbatim>\<open>int\<close> to a \<^verbatim>\<open>float\<close> in \<^verbatim>\<open>int / float\<close> raises
  \<^verbatim>\<open>OverflowError\<close> beyond the range of a double, and does so in the model; the value
  \<^verbatim>\<open>float('inf')\<close> is a separate constructor where the source produces it.
\<close>

subsection \<open>\<^verbatim>\<open>epoch_converter.py\<close>: constants and time conversion\<close>

definition GENESIS_TIMESTAMP :: int where
  "GENESIS_TIMESTAMP = 1606824023"

definition SECONDS_PER_SLOT :: int where
  "SECONDS_PER_SLOT = 12"

definition SLOTS_PER_EPOCH :: int where
  "SLOTS_PER_EPOCH = 32"

definition SECONDS_PER_EPOCH :: int where
  "SECONDS_PER_EPOCH = SECONDS_PER_SLOT * SLOTS_PER_EPOCH"

definition epoch_to_timestamp :: "int \<Rightarrow> int" where
  "epoch_to_timestamp epoch = GENESIS_TIMESTAMP + (epoch * SECONDS_PER_EPOCH)"

definition timestamp_to_epoch :: "int \<Rightarrow> int" where
  "timestamp_to_epoch ts = max 0 ((ts - GENESIS_TIMESTAMP) div SECONDS_PER_EPOCH)"

definition slot_to_epoch :: "int \<Rightarrow> int" where
  "slot_to_epoch slot = slot div SLOTS_PER_EPOCH"

definition epoch_to_slot_range :: "int \<Rightarrow> int \<times> int" where
  "epoch_to_slot_range epoch =
     (let start = epoch * SLOTS_PER_EPOCH;
          end' = start + SLOTS_PER_EPOCH - 1
      in (start, end'))"

definition slot_to_timestamp :: "int \<Rightarrow> int" where
  "slot_to_timestamp slot = GENESIS_TIMESTAMP + (slot * SECONDS_PER_SLOT)"

definition timestamp_to_slot :: "int \<Rightarrow> int" where
  "timestamp_to_slot ts = max 0 ((ts - GENESIS_TIMESTAMP) div SECONDS_PER_SLOT)"

subsection \<open>JSON values and Python's \<^verbatim>\<open>int()\<close>\<close>

text \<open>
  The scripts read amounts from decoded JSON: a decimal string (\<^verbatim>\<open>str\<close>), or a native
  number (\<^verbatim>\<open>int\<close> or \<^verbatim>\<open>float\<close>). Other JSON values (null, lists, objects, booleans)
  are outside this type.
\<close>

datatype jval = Str string | IntV int | FloatV real

datatype py_error = ValueError | OverflowError

text \<open>
  \<^verbatim>\<open>int(s)\<close> on a string: surrounding whitespace is stripped, one optional sign, then
  decimal digits, where a single underscore may stand between two digits; anything else
  raises \<^verbatim>\<open>ValueError\<close>, and so does a string of more than 4300 digits (the default of
  \<^verbatim>\<open>sys.get_int_max_str_digits()\<close>; underscores, sign and spaces do not count). Strings
  are ASCII here, where the whitespace of \<^verbatim>\<open>int()\<close> is the space and the characters 9
  to 13; the digits and spaces of Unicode beyond ASCII are not modelled.
\<close>

definition is_space :: "char \<Rightarrow> bool" where
  "is_space c =
     (c \<in> set [CHR '' '', CHR 0x09, CHR 0x0A, CHR 0x0B, CHR 0x0C, CHR 0x0D])"

definition strip :: "string \<Rightarrow> string" where
  "strip s = rev (dropWhile is_space (rev (dropWhile is_space s)))"

definition digit_val :: "char \<Rightarrow> int option" where
  "digit_val c =
     (let n = (of_char c :: nat)
      in if 48 \<le> n \<and> n \<le> 57 then Some (int n - 48) else None)"

fun digits_value :: "int \<Rightarrow> string \<Rightarrow> int option" where
  "digits_value acc [] = Some acc"
| "digits_value acc [c] =
     (case digit_val c of None \<Rightarrow> None | Some v \<Rightarrow> Some (10 * acc + v))"
| "digits_value acc (c # d # ds) =
     (if c = CHR ''_'' then
        (case digit_val d of None \<Rightarrow> None | Some v \<Rightarrow> digits_value (10 * acc + v) ds)
      else
        (case digit_val c of None \<Rightarrow> None | Some v \<Rightarrow> digits_value (10 * acc + v) (d # ds)))"

definition int_max_str_digits :: nat where
  "int_max_str_digits = 4300"

definition int_of_str :: "string \<Rightarrow> py_error + int" where
  "int_of_str s =
     (case strip s of
        [] \<Rightarrow> Inl ValueError
      | c # cs \<Rightarrow>
          (let neg = (c = CHR ''-'');
               body = (if c = CHR ''-'' \<or> c = CHR ''+'' then cs else c # cs)
           in case body of
                [] \<Rightarrow> Inl ValueError
              | d # ds \<Rightarrow>
                  (case digit_val d of
                     None \<Rightarrow> Inl ValueError
                   | Some v \<Rightarrow>
                       (case digits_value v ds of
                          None \<Rightarrow> Inl ValueError
                        | Some n \<Rightarrow>
                            if length (filter (\<lambda>x. x \<noteq> CHR ''_'') body) > int_max_str_digits
                            then Inl ValueError
                            else Inr (if neg then - n else n)))))"

text \<open>
  \<^verbatim>\<open>int(x)\<close> on a decoded JSON value: a string is parsed, an int is itself, a float is
  truncated towards zero.
\<close>

definition py_int :: "jval \<Rightarrow> py_error + int" where
  "py_int v =
     (case v of
        Str s \<Rightarrow> int_of_str s
      | IntV i \<Rightarrow> Inr i
      | FloatV r \<Rightarrow> Inr (if 0 \<le> r then \<lfloor>r\<rfloor> else \<lceil>r\<rceil>))"

subsection \<open>Division of an \<^verbatim>\<open>int\<close> by a \<^verbatim>\<open>float\<close>\<close>

text \<open>
  In \<^verbatim>\<open>n / 1e18\<close> with an int \<^verbatim>\<open>n\<close>, Python first converts \<^verbatim>\<open>n\<close> to a float, rounding
  to the nearest double. From \<open>2^1024 - 2^970\<close> on, half-way between the largest double
  and \<open>2^1024\<close>, no double is nearest and the conversion raises \<^verbatim>\<open>OverflowError\<close>.
\<close>

definition float_overflow :: int where
  "float_overflow = 2 ^ 1024 - 2 ^ 970"

definition float_of_int :: "int \<Rightarrow> py_error + real" where
  "float_of_int n = (if \<bar>n\<bar> \<ge> float_overflow then Inl OverflowError else Inr (real_of_int n))"

text \<open>\<^verbatim>\<open>n / 1e18\<close> for an int \<^verbatim>\<open>n\<close>\<close>

definition int_div_1e18 :: "int \<Rightarrow> py_error + real" where
  "int_div_1e18 n = (case float_of_int n of Inl e \<Rightarrow> Inl e | Inr x \<Rightarrow> Inr (x / 10 ^ 18))"

subsection \<open>Unit conversion: the three bodies of \<^verbatim>\<open>wei_to_eth\<close>\<close>

text \<open>
  \<^verbatim>\<open>analyze_missed.py\<close> and \<^verbatim>\<open>format_rewards.py\<close>:
  \<^verbatim>\<open>return int(wei_str) / 1e18\<close>.
\<close>

definition analyze_missed_wei_to_eth :: "jval \<Rightarrow> py_error + real" where
  "analyze_missed_wei_to_eth wei_str =
     (case py_int wei_str of Inl e \<Rightarrow> Inl e | Inr n \<Rightarrow> int_div_1e18 n)"

text \<open>
  \<^verbatim>\<open>calc_apr.py\<close> (and, word for word, \<^verbatim>\<open>format_network.py\<close>):
  \<^verbatim>\<open>
  if isinstance(val, str):
      return int(val) / 1e18
  return val / 1e18 if val > 1e15 else val
  \<close>
\<close>

definition calc_apr_wei_to_eth :: "jval \<Rightarrow> py_error + real" where
  "calc_apr_wei_to_eth val =
     (case val of
        Str s \<Rightarrow> (case int_of_str s of Inl e \<Rightarrow> Inl e | Inr n \<Rightarrow> int_div_1e18 n)
      | IntV i \<Rightarrow> (if real_of_int i > 10 ^ 15 then int_div_1e18 i else Inr (real_of_int i))
      | FloatV r \<Rightarrow> Inr (if r > 10 ^ 15 then r / 10 ^ 18 else r))"

text \<open>
  \<^verbatim>\<open>format_aggregate.py\<close>:
  \<^verbatim>\<open>
  if isinstance(wei_str, (int, float)):
      return wei_str / 1e18 if wei_str > 1e15 else wei_str
  return int(wei_str) / 1e18
  \<close>
\<close>

definition format_aggregate_wei_to_eth :: "jval \<Rightarrow> py_error + real" where
  "format_aggregate_wei_to_eth wei_str =
     (case wei_str of
        IntV i \<Rightarrow> (if real_of_int i > 10 ^ 15 then int_div_1e18 i else Inr (real_of_int i))
      | FloatV r \<Rightarrow> Inr (if r > 10 ^ 15 then r / 10 ^ 18 else r)
      | Str s \<Rightarrow> (case int_of_str s of Inl e \<Rightarrow> Inl e | Inr n \<Rightarrow> int_div_1e18 n))"

subsection \<open>Capture rate: \<^verbatim>\<open>pct\<close> and \<^verbatim>\<open>calc_efficiency\<close>\<close>

definition pct :: "real \<Rightarrow> real \<Rightarrow> real" where
  "pct part total' = (if total' = 0 then 0 else (part / total') * 100)"

definition calc_efficiency :: "real \<Rightarrow> real \<Rightarrow> real \<Rightarrow> real" where
  "calc_efficiency reward penalty missed =
     (let total_possible = reward + penalty + missed
      in if total_possible = 0 then 100 else (reward / total_possible) * 100)"

subsection \<open>\<^verbatim>\<open>calc_apr.py\<close>: annualisation\<close>

definition EPOCHS_PER_YEAR :: int where
  "EPOCHS_PER_YEAR = 82125"

definition calc_apr :: "real \<Rightarrow> real \<Rightarrow> int \<Rightarrow> real" where
  "calc_apr rewards_eth balance_eth epochs =
     (if balance_eth = 0 \<or> epochs = 0 then 0
      else let period_rate = rewards_eth / balance_eth
           in period_rate * (real_of_int EPOCHS_PER_YEAR / real_of_int epochs) * 100)"

subsection \<open>Queue wait: \<^verbatim>\<open>calc_wait\<close> and \<^verbatim>\<open>estimate_queue_wait\<close>\<close>

text \<open>
  A float that may be \<^verbatim>\<open>float('inf')\<close>, which \<^verbatim>\<open>estimate_queue_wait\<close> returns on
  its guard.
\<close>

datatype pyfloat = Fin real | PosInf

text \<open>
  The quotient \<^verbatim>\<open>queue_length / churn_limit\<close> of two ints and the products that follow
  are taken exactly; a queue length so large that the quotient leaves the range of a
  double, from about \<open>7 * 10^308\<close> on, is not covered.
  \<^verbatim>\<open>format_queues.py\<close>:
  \<^verbatim>\<open>
  churn_limit = max(4, active_validators // 65536)
  if churn_limit == 0:
      return 0, 0
  wait_epochs = queue_length / churn_limit
  wait_hours = wait_epochs * 6.4 / 60
  return wait_hours, churn_limit
  \<close>
\<close>

definition calc_wait :: "int \<Rightarrow> int \<Rightarrow> pyfloat \<times> int" where
  "calc_wait queue_length active_validators =
     (let churn_limit = max 4 (active_validators div 65536)
      in if churn_limit = 0 then (Fin 0, 0)
         else let wait_epochs = real_of_int queue_length / real_of_int churn_limit;
                  wait_hours = wait_epochs * 6.4 / 60
              in (Fin wait_hours, churn_limit))"

text \<open>
  \<^verbatim>\<open>format_network.py\<close> differs in the guard only:
  \<^verbatim>\<open>return float('inf'), churn_limit\<close>.
\<close>

definition estimate_queue_wait :: "int \<Rightarrow> int \<Rightarrow> pyfloat \<times> int" where
  "estimate_queue_wait queue_length active_validators =
     (let churn_limit = max 4 (active_validators div 65536)
      in if churn_limit = 0 then (PosInf, churn_limit)
         else let wait_epochs = real_of_int queue_length / real_of_int churn_limit;
                  wait_hours = wait_epochs * 6.4 / 60
              in (Fin wait_hours, churn_limit))"

subsection \<open>\<^verbatim>\<open>analyze_missed.py\<close>: one validator's record\<close>

text \<open>
  The decoded rewards-list entry. Keys read with \<^verbatim>\<open>entry[...]\<close> are fields that are
  always there; keys read with \<^verbatim>\<open>.get(key, "0")\<close> are optional. The three top-level
  totals carry the prefix \<open>raw_\<close>, the names without it being those of the result.
\<close>

record duty =
  missed_reward :: "jval option"
  penalty :: "jval option"

record attestation =
  head :: duty
  source :: duty
  target :: duty
  inactivity_leak_penalty :: "jval option"

record proposal =
  missed_cl_reward :: "jval option"
  missed_el_reward :: "jval option"

record entry =
  validator_index :: int
  raw_total_reward :: jval
  raw_total_missed :: jval
  raw_total_penalty :: jval
  attestation :: attestation
  sync_committee :: duty
  proposal :: proposal

text \<open>\<^verbatim>\<open>d.get(key, "0")\<close>\<close>

definition get_or_zero :: "jval option \<Rightarrow> jval" where
  "get_or_zero v = (case v of None \<Rightarrow> Str ''0'' | Some x \<Rightarrow> x)"

text \<open>The dictionaries \<^verbatim>\<open>missed\<close> and \<^verbatim>\<open>penalties\<close>, and the one returned.\<close>

record missed_by_duty =
  m_head :: real
  m_source :: real
  m_target :: real
  m_sync :: real
  m_proposal_cl :: real
  m_proposal_el :: real

record penalties_by_duty =
  p_head :: real
  p_source :: real
  p_target :: real
  p_sync :: real
  p_inactivity_leak :: real

record analysis =
  index :: int
  total_reward :: real
  total_missed :: real
  total_penalty :: real
  total_possible :: real
  capture_rate :: real
  missed :: missed_by_duty
  penalties :: penalties_by_duty

text \<open>Sequencing of calls that may raise: the first error ends the computation.\<close>

definition and_then :: "py_error + 'a \<Rightarrow> ('a \<Rightarrow> py_error + 'b) \<Rightarrow> py_error + 'b" where
  "and_then m f = (case m of Inl e \<Rightarrow> Inl e | Inr x \<Rightarrow> f x)"

definition analyze_entry :: "entry \<Rightarrow> py_error + analysis" where
  "analyze_entry entry =
     (let idx = validator_index entry;
          att = attestation entry
      in
      and_then (analyze_missed_wei_to_eth (raw_total_reward entry)) (\<lambda>total_reward'.
      and_then (analyze_missed_wei_to_eth (raw_total_missed entry)) (\<lambda>total_missed'.
      and_then (analyze_missed_wei_to_eth (raw_total_penalty entry)) (\<lambda>total_penalty'.
      let total_possible' = total_reward' + total_missed' + total_penalty' in
      and_then (analyze_missed_wei_to_eth (get_or_zero (missed_reward (head att)))) (\<lambda>mh.
      and_then (analyze_missed_wei_to_eth (get_or_zero (missed_reward (source att)))) (\<lambda>ms.
      and_then (analyze_missed_wei_to_eth (get_or_zero (missed_reward (target att)))) (\<lambda>mt.
      and_then (analyze_missed_wei_to_eth (get_or_zero (missed_reward (sync_committee entry)))) (\<lambda>my.
      and_then (analyze_missed_wei_to_eth (get_or_zero (missed_cl_reward (proposal entry)))) (\<lambda>mc.
      and_then (analyze_missed_wei_to_eth (get_or_zero (missed_el_reward (proposal entry)))) (\<lambda>me.
      and_then (analyze_missed_wei_to_eth (get_or_zero (penalty (head att)))) (\<lambda>ph.
      and_then (analyze_missed_wei_to_eth (get_or_zero (penalty (source att)))) (\<lambda>ps.
      and_then (analyze_missed_wei_to_eth (get_or_zero (penalty (target att)))) (\<lambda>pt.
      and_then (analyze_missed_wei_to_eth (get_or_zero (penalty (sync_committee entry)))) (\<lambda>py.
      and_then (analyze_missed_wei_to_eth (get_or_zero (inactivity_leak_penalty att))) (\<lambda>pl.
      Inr \<lparr> index = idx,
            total_reward = total_reward',
            total_missed = total_missed',
            total_penalty = total_penalty',
            total_possible = total_possible',
            capture_rate = pct total_reward' total_possible',
            missed = \<lparr> m_head = mh, m_source = ms, m_target = mt, m_sync = my,
                       m_proposal_cl = mc, m_proposal_el = me \<rparr>,
            penalties = \<lparr> p_head = ph, p_source = ps, p_target = pt, p_sync = py,
                          p_inactivity_leak = pl \<rparr> \<rparr>)))))))))))))))"

subsection \<open>\<^verbatim>\<open>analyze_missed.py\<close>: diagnostics\<close>

text \<open>
  An issue is a pair of a label and an advice text. Each constructor stands for one
  \<^verbatim>\<open>issues.append\<close> of the source and carries the number formatted into its text: the
  missed proposal total, or the capture rate.
\<close>

datatype issue =
    Missed_head_votes
  | Missed_source_votes
  | Missed_target_votes
  | Missed_sync_committee_duties
  | Missed_block_proposal real
  | Inactivity_leak_penalty
  | Exceptional_performance real
  | Good_performance real
  | Below_target real
  | Poor_performance real

definition diagnose :: "analysis \<Rightarrow> issue list" where
  "diagnose a =
     (let m = missed a; p = penalties a in
        (if m_head m > 0 then [Missed_head_votes] else [])
      @ (if m_source m > 0 then [Missed_source_votes] else [])
      @ (if m_target m > 0 then [Missed_target_votes] else [])
      @ (if m_sync m > 0 then [Missed_sync_committee_duties] else [])
      @ (if m_proposal_cl m > 0 \<or> m_proposal_el m > 0
         then [Missed_block_proposal (m_proposal_cl m + m_proposal_el m)] else [])
      @ (if p_inactivity_leak p > 0 then [Inactivity_leak_penalty] else [])
      @ (if capture_rate a \<ge> 99.5 then [Exceptional_performance (capture_rate a)]
         else if capture_rate a \<ge> 99.0 then [Good_performance (capture_rate a)]
         else if capture_rate a \<ge> 95.0 then [Below_target (capture_rate a)]
         else [Poor_performance (capture_rate a)]))"

subsection \<open>\<^verbatim>\<open>format_beaconscore.py\<close>: score indicator\<close>

text \<open>The returned strings, one constructor each.\<close>

datatype indicator =
    Score_Exceptional
  | Score_Good
  | Score_Below_target
  | Score_Needs_attention
  | Score_Poor

definition score_indicator :: "real \<Rightarrow> indicator" where
  "score_indicator score =
     (if score \<ge> 99.5 then Score_Exceptional
      else if score \<ge> 99.0 then Score_Good
      else if score \<ge> 97.0 then Score_Below_target
      else if score \<ge> 95.0 then Score_Needs_attention
      else Score_Poor)"

subsection \<open>\<^verbatim>\<open>analyze_missed.py\<close>: the aggregate of \<^verbatim>\<open>main\<close>\<close>

text \<open>
  The loop of \<^verbatim>\<open>main\<close> over the entries, carrying \<^verbatim>\<open>total_earned\<close> and
  \<^verbatim>\<open>total_missed\<close>; an entry that raises ends the run.
\<close>

fun main_loop :: "entry list \<Rightarrow> real \<Rightarrow> real \<Rightarrow> py_error + real \<times> real" where
  "main_loop [] total_earned total_missed' = Inr (total_earned, total_missed')"
| "main_loop (entry # entries) total_earned total_missed' =
     (case analyze_entry entry of
        Inl e \<Rightarrow> Inl e
      | Inr a \<Rightarrow> main_loop entries (total_earned + total_reward a) (total_missed' + total_missed a))"

text \<open>
  The capture rate printed under "Aggregate Missed Rewards": \<open>None\<close> when the block is
  not printed (no entries, or a single one).
\<close>

definition main_aggregate :: "entry list \<Rightarrow> py_error + real option" where
  "main_aggregate entries =
     (if entries = [] then Inr None
      else case main_loop entries 0 0 of
             Inl e \<Rightarrow> Inl e
           | Inr (total_earned, total_missed') \<Rightarrow>
               if length entries > 1
               then (let total_possible' = total_earned + total_missed'
                     in Inr (Some (pct total_earned total_possible')))
               else Inr None)"

subsection \<open>Auxiliary notions for the statements\<close>

text \<open>The integer that a string of decimal digits denotes, most significant digit first.\<close>

definition decimal_value :: "string \<Rightarrow> int" where
  "decimal_value s = foldl (\<lambda>acc c. 10 * acc + (int (of_char c) - 48)) 0 s"

text \<open>The four issues that report the capture-rate band.\<close>

fun is_band :: "issue \<Rightarrow> bool" where
  "is_band (Exceptional_performance r) = True"
| "is_band (Good_performance r) = True"
| "is_band (Below_target r) = True"
| "is_band (Poor_performance r) = True"
| "is_band other = False"

text \<open>An entry that has its three totals as strings and none of the optional keys.\<close>

abbreviation no_duty :: duty where
  "no_duty \<equiv> \<lparr> missed_reward = None, penalty = None \<rparr>"

abbreviation totals_only :: "int \<Rightarrow> string \<Rightarrow> string \<Rightarrow> string \<Rightarrow> entry" where
  "totals_only i r m p \<equiv>
     \<lparr> validator_index = i, raw_total_reward = Str r, raw_total_missed = Str m,
       raw_total_penalty = Str p,
       attestation = \<lparr> head = no_duty, source = no_duty, target = no_duty,
                       inactivity_leak_penalty = None \<rparr>,
       sync_committee = no_duty,
       proposal = \<lparr> missed_cl_reward = None, missed_el_reward = None \<rparr> \<rparr>"

section \<open>Properties\<close>

subsection \<open>Time conversion\<close>

lemma SECONDS_PER_EPOCH_384: "SECONDS_PER_EPOCH = 384"
  by (simp add: SECONDS_PER_EPOCH_def SECONDS_PER_SLOT_def SLOTS_PER_EPOCH_def)

text \<open>
  Claim C2. For every epoch \<open>e \<ge> 0\<close>, converting the epoch to its timestamp and the
  timestamp back to an epoch gives \<open>e\<close> again.
\<close>

theorem epoch_roundtrip:
  "0 \<le> e \<Longrightarrow> timestamp_to_epoch (epoch_to_timestamp e) = e"
  by (simp add: timestamp_to_epoch_def epoch_to_timestamp_def SECONDS_PER_EPOCH_384)

theorem epoch_roundtrip_witness:
  "(0::int) \<le> 347566 \<and> epoch_to_timestamp 347566 = 1740289367
     \<and> timestamp_to_epoch 1740289367 = 347566"
  using epoch_roundtrip [of 347566]
  by (simp add: epoch_to_timestamp_def GENESIS_TIMESTAMP_def SECONDS_PER_EPOCH_384)

text \<open>
  Claim C3. Every timestamp strictly before genesis maps to epoch 0: the floor division
  gives a negative quotient and \<^verbatim>\<open>max(0, ...)\<close> clamps it; nothing is raised.
\<close>

theorem timestamp_before_genesis:
  "t < GENESIS_TIMESTAMP \<Longrightarrow> timestamp_to_epoch t = 0"
proof -
  assume "t < GENESIS_TIMESTAMP"
  then have "t - GENESIS_TIMESTAMP < 0" by simp
  then have "(t - GENESIS_TIMESTAMP) div 384 < 0"
    by (simp add: div_neg_pos_less0)
  then show ?thesis
    by (simp add: timestamp_to_epoch_def SECONDS_PER_EPOCH_384)
qed

theorem timestamp_before_genesis_witness:
  "(1606824022::int) < GENESIS_TIMESTAMP \<and> timestamp_to_epoch 1606824022 = 0
     \<and> (1606824022 - GENESIS_TIMESTAMP) div SECONDS_PER_EPOCH = -1"
  using timestamp_before_genesis [of 1606824022]
  by (simp add: GENESIS_TIMESTAMP_def SECONDS_PER_EPOCH_384)

subsection \<open>Annualisation\<close>

text \<open>
  Claim C4. For every reward, \<^verbatim>\<open>calc_apr\<close> returns 0 when the balance is 0 or the
  number of epochs is 0, and otherwise
  \<open>(reward / balance) * (EPOCHS_PER_YEAR / epochs) * 100\<close> with \<open>EPOCHS_PER_YEAR = 82125\<close>.
\<close>

theorem calc_apr_rule:
  "calc_apr r 0 e = 0 \<and> calc_apr r b 0 = 0 \<and> EPOCHS_PER_YEAR = 82125 \<and>
   calc_apr r b e =
     (if b = 0 \<or> e = 0 then 0 else (r / b) * (82125 / real_of_int e) * 100)"
  by (simp add: calc_apr_def EPOCHS_PER_YEAR_def Let_def)

subsection \<open>Queue wait\<close>

text \<open>
  Claim C5. For every active validator count \<open>x \<ge> 0\<close> the churn limit that both wait
  functions compute and return is \<open>max 4 (x div 65536)\<close>, hence at least 4; for 970000
  validators it is 14.
\<close>

theorem churn_limit_rule:
  "0 \<le> x \<Longrightarrow>
     snd (calc_wait q x) = max 4 (x div 65536) \<and>
     snd (estimate_queue_wait q x) = max 4 (x div 65536) \<and>
     4 \<le> snd (calc_wait q x) \<and> 4 \<le> snd (estimate_queue_wait q x)"
  by (simp add: calc_wait_def estimate_queue_wait_def Let_def)

theorem churn_limit_rule_witness:
  "(0::int) \<le> 970000 \<and> snd (calc_wait 1400 970000) = 14
     \<and> snd (estimate_queue_wait 1400 970000) = 14"
  using churn_limit_rule [of 970000 1400] by simp


lemma wait_1400_of_970000:
  "calc_wait 1400 970000 = (Fin (32 / 3), 14) \<and>
   estimate_queue_wait 1400 970000 = (Fin (32 / 3), 14)"
  by (simp add: calc_wait_def estimate_queue_wait_def Let_def)

subsection \<open>Banding\<close>

text \<open>
  Claim C8, as the code has it. \<^verbatim>\<open>diagnose\<close> ends with exactly one band issue, chosen
  by four half-open intervals with the boundaries 95, 99 and 99.5; \<^verbatim>\<open>score_indicator\<close>
  has five bands, with the boundaries 95, 97, 99 and 99.5. Every band includes its lower
  edge, and exactly 99.0 is in the "good" band of both.
\<close>

theorem banding_rule:
  "filter is_band (diagnose a) = [last (diagnose a)] \<and>
   (last (diagnose a) = Poor_performance (capture_rate a) \<longleftrightarrow> capture_rate a < 95) \<and>
   (last (diagnose a) = Below_target (capture_rate a)
      \<longleftrightarrow> 95 \<le> capture_rate a \<and> capture_rate a < 99) \<and>
   (last (diagnose a) = Good_performance (capture_rate a)
      \<longleftrightarrow> 99 \<le> capture_rate a \<and> capture_rate a < 99.5) \<and>
   (last (diagnose a) = Exceptional_performance (capture_rate a) \<longleftrightarrow> 99.5 \<le> capture_rate a) \<and>
   last (diagnose (a\<lparr>capture_rate := 99\<rparr>)) = Good_performance 99 \<and>
   (score_indicator x = Score_Poor \<longleftrightarrow> x < 95) \<and>
   (score_indicator x = Score_Needs_attention \<longleftrightarrow> 95 \<le> x \<and> x < 97) \<and>
   (score_indicator x = Score_Below_target \<longleftrightarrow> 97 \<le> x \<and> x < 99) \<and>
   (score_indicator x = Score_Good \<longleftrightarrow> 99 \<le> x \<and> x < 99.5) \<and>
   (score_indicator x = Score_Exceptional \<longleftrightarrow> 99.5 \<le> x) \<and>
   score_indicator 99 = Score_Good"
  by (simp add: diagnose_def score_indicator_def Let_def)

text \<open>
  The claim as written fails on \<^verbatim>\<open>score_indicator\<close>: 96 and 98 both lie between the
  boundaries 95 and 99, and get different labels.
\<close>

theorem score_indicator_bands_counterexample:
  "(95::real) \<le> 96 \<and> (96::real) < 99 \<and> (95::real) \<le> 98 \<and> (98::real) < 99 \<and>
   score_indicator 96 = Score_Needs_attention \<and> score_indicator 98 = Score_Below_target \<and>
   score_indicator 96 \<noteq> score_indicator 98"
  by (simp add: score_indicator_def)

subsection \<open>Python's \<^verbatim>\<open>int()\<close> on digit strings\<close>

lemma digit_val_Some:
  "digit_val c \<noteq> None \<Longrightarrow> digit_val c = Some (int (of_char c) - 48)"
  by (simp add: digit_val_def Let_def split: if_splits)

lemma digit_not_space: "digit_val c \<noteq> None \<Longrightarrow> \<not> is_space c"
  by (auto simp add: digit_val_def is_space_def Let_def split: if_splits)

lemma digit_not_sign:
  "digit_val c \<noteq> None \<Longrightarrow> c \<noteq> CHR ''-'' \<and> c \<noteq> CHR ''+'' \<and> c \<noteq> CHR ''_''"
  by (auto simp add: digit_val_def Let_def split: if_splits)

lemma strip_digits:
  assumes ne: "s \<noteq> []" and digits: "list_all (\<lambda>c. digit_val c \<noteq> None) s"
  shows "strip s = s"
proof -
  from ne obtain c cs where s: "s = c # cs" by (cases s) auto
  with digits have "\<not> is_space c" by (simp add: digit_not_space)
  then have front: "dropWhile is_space s = s" by (simp add: s)
  from ne have "rev s \<noteq> []" by simp
  then obtain d ds where r: "rev s = d # ds" by (cases "rev s") auto
  then have "d \<in> set s" by (metis list.set_intros(1) set_rev)
  with digits have "\<not> is_space d" by (auto simp add: list_all_iff digit_not_space)
  then have "dropWhile is_space (rev s) = rev s" by (simp add: r)
  with front show ?thesis by (simp add: strip_def)
qed

lemma digits_value_digits:
  "list_all (\<lambda>c. digit_val c \<noteq> None) s \<Longrightarrow>
   digits_value acc s = Some (foldl (\<lambda>acc c. 10 * acc + (int (of_char c) - 48)) acc s)"
proof (induction acc s rule: digits_value.induct)
  case (1 acc)
  then show ?case by simp
next
  case (2 acc c)
  then show ?case by (simp add: digit_val_Some)
next
  case (3 acc c d ds)
  then show ?case by (simp add: digit_val_Some digit_not_sign)
qed

lemma digits_no_underscore:
  "list_all (\<lambda>c. digit_val c \<noteq> None) s \<Longrightarrow> filter (\<lambda>x. x \<noteq> CHR ''_'') s = s"
  by (induction s) (auto simp add: digit_not_sign)

lemma int_of_str_digits:
  assumes "s \<noteq> []" and "list_all (\<lambda>c. digit_val c \<noteq> None) s"
  shows "int_of_str s =
           (if length s > int_max_str_digits then Inl ValueError else Inr (decimal_value s))"
proof -
  from assms(1) obtain c cs where s: "s = c # cs" by (cases s) auto
  with assms(2) have c: "digit_val c \<noteq> None"
    and cs: "list_all (\<lambda>c. digit_val c \<noteq> None) cs"
    by simp_all
  have st: "strip (c # cs) = c # cs" using strip_digits [OF assms] s by simp
  have f: "length (filter (\<lambda>x. x \<noteq> CHR ''_'') (c # cs)) = Suc (length cs)"
    using digits_no_underscore [OF assms(2)] s by simp
  have v: "digit_val c = Some (int (of_char c) - 48)" using c by (rule digit_val_Some)
  have "int_of_str (c # cs) =
          (if Suc (length cs) > int_max_str_digits then Inl ValueError
           else Inr (foldl (\<lambda>acc c. 10 * acc + (int (of_char c) - 48))
                      (int (of_char c) - 48) cs))"
    unfolding int_of_str_def st Let_def
    using digit_not_sign [OF c] f
    by (simp add: v digits_value_digits [OF cs] del: filter.simps)
  then show ?thesis by (simp add: s decimal_value_def)
qed

lemma int_of_str_examples:
  "int_of_str '' -1_0 '' = Inr (- 10) \<and> int_of_str ''1__0'' = Inl ValueError \<and>
   int_of_str ''0x10'' = Inl ValueError \<and> int_of_str ''_1'' = Inl ValueError \<and>
   int_of_str ''1_'' = Inl ValueError \<and> int_of_str ''+'' = Inl ValueError \<and>
   int_of_str ''- 1'' = Inl ValueError \<and> int_of_str [] = Inl ValueError \<and>
   int_of_str [CHR 0x1F, CHR ''1'', CHR ''2'', CHR 0x1C] = Inl ValueError \<and>
   int_of_str ''007'' = Inr 7"
  by (simp add: int_of_str_def strip_def is_space_def digit_val_def Let_def
      int_max_str_digits_def)

lemma decimal_value_zeros:
  "foldl (\<lambda>acc c. 10 * acc + (int (of_char c) - 48)) acc (replicate n (CHR ''0'')) = acc * 10 ^ n"
  by (induction n arbitrary: acc) simp_all

lemma decimal_value_one_zeros:
  "decimal_value (CHR ''1'' # replicate n (CHR ''0'')) = 10 ^ n"
  by (simp add: decimal_value_def decimal_value_zeros)

lemma digits_one_zeros:
  "list_all (\<lambda>c. digit_val c \<noteq> None) (CHR ''1'' # replicate n (CHR ''0''))"
  by (simp add: list_all_iff digit_val_def)

subsection \<open>Unit conversion\<close>

text \<open>
  Claim C7, as the code has it. A native number strictly above \<open>10^15\<close> is divided by
  \<open>10^18\<close>, which for an int from \<open>2^1024 - 2^970\<close> on raises \<^verbatim>\<open>OverflowError\<close>; a
  native number at or below \<open>10^15\<close> is returned unchanged. A non-empty string of at most
  4300 decimal digits is read as the integer it denotes and divided by \<open>10^18\<close> when that
  integer is below \<open>2^1024 - 2^970\<close>, and raises \<^verbatim>\<open>OverflowError\<close> otherwise; a longer
  string of digits raises \<^verbatim>\<open>ValueError\<close>. \<^verbatim>\<open>calc_apr.py\<close> and
  \<^verbatim>\<open>format_aggregate.py\<close> agree.
\<close>

theorem unit_scale_rule:
  "calc_apr_wei_to_eth (IntV i) =
     (if i \<le> 10 ^ 15 then Inr (real_of_int i)
      else if i < float_overflow then Inr (real_of_int i / 10 ^ 18)
      else Inl OverflowError) \<and>
   calc_apr_wei_to_eth (FloatV r) = Inr (if 10 ^ 15 < r then r / 10 ^ 18 else r) \<and>
   format_aggregate_wei_to_eth (IntV i) = calc_apr_wei_to_eth (IntV i) \<and>
   format_aggregate_wei_to_eth (FloatV r) = calc_apr_wei_to_eth (FloatV r) \<and>
   (s \<noteq> [] \<and> list_all (\<lambda>c. digit_val c \<noteq> None) s \<longrightarrow>
      calc_apr_wei_to_eth (Str s) =
        (if length s > 4300 then Inl ValueError
         else if decimal_value s < float_overflow
         then Inr (real_of_int (decimal_value s) / 10 ^ 18)
         else Inl OverflowError) \<and>
      format_aggregate_wei_to_eth (Str s) = calc_apr_wei_to_eth (Str s))"
proof -
  have dv: "0 \<le> decimal_value s" if "list_all (\<lambda>c. digit_val c \<noteq> None) s"
  proof -
    have "0 \<le> acc \<Longrightarrow> list_all (\<lambda>c. digit_val c \<noteq> None) t \<Longrightarrow>
          0 \<le> foldl (\<lambda>acc c. 10 * acc + (int (of_char c) - 48)) acc t" for acc t
      by (induction t arbitrary: acc) (auto simp add: digit_val_def Let_def split: if_splits)
    with that show ?thesis by (simp add: decimal_value_def)
  qed
  have i: "calc_apr_wei_to_eth (IntV i) =
     (if i \<le> 10 ^ 15 then Inr (real_of_int i)
      else if i < float_overflow then Inr (real_of_int i / 10 ^ 18)
      else Inl OverflowError)"
  proof -
    have "real_of_int i > 10 ^ 15 \<longleftrightarrow> \<not> i \<le> 10 ^ 15"
      by (metis not_le of_int_less_iff of_int_numeral of_int_power)
    then show ?thesis
      by (auto simp add: calc_apr_wei_to_eth_def int_div_1e18_def float_of_int_def)
  qed
  have "format_aggregate_wei_to_eth v = calc_apr_wei_to_eth v" for v
    by (cases v) (simp_all add: calc_apr_wei_to_eth_def format_aggregate_wei_to_eth_def)
  moreover have "calc_apr_wei_to_eth (Str s) =
        (if length s > 4300 then Inl ValueError
         else if decimal_value s < float_overflow
         then Inr (real_of_int (decimal_value s) / 10 ^ 18)
         else Inl OverflowError)"
    if "s \<noteq> []" "list_all (\<lambda>c. digit_val c \<noteq> None) s"
    using int_of_str_digits [OF that] dv [OF that(2)]
    by (auto simp add: calc_apr_wei_to_eth_def int_div_1e18_def float_of_int_def
        int_max_str_digits_def)
  ultimately show ?thesis using i
    by (simp add: calc_apr_wei_to_eth_def)
qed

theorem unit_scale_rule_witness:
  "''32000000000000000'' \<noteq> [] \<and>
   list_all (\<lambda>c. digit_val c \<noteq> None) ''32000000000000000'' \<and>
   decimal_value ''32000000000000000'' = 32000000000000000 \<and>
   calc_apr_wei_to_eth (Str ''32000000000000000'') = Inr (32 / 1000) \<and>
   calc_apr_wei_to_eth (IntV 1000000000000001) = Inr (1000000000000001 / 10 ^ 18) \<and>
   calc_apr_wei_to_eth (IntV 999999999999999) = Inr 999999999999999 \<and>
   CHR ''1'' # replicate 309 (CHR ''0'') \<noteq> [] \<and>
   list_all (\<lambda>c. digit_val c \<noteq> None) (CHR ''1'' # replicate 309 (CHR ''0'')) \<and>
   calc_apr_wei_to_eth (Str (CHR ''1'' # replicate 309 (CHR ''0''))) = Inl OverflowError \<and>
   calc_apr_wei_to_eth (Str (CHR ''1'' # replicate 4300 (CHR ''0''))) = Inl ValueError"
  using unit_scale_rule [of 1000000000000001 0 "''32000000000000000''"]
    unit_scale_rule [of 999999999999999 0 "CHR ''1'' # replicate 309 (CHR ''0'')"]
    unit_scale_rule [of 0 0 "CHR ''1'' # replicate 4300 (CHR ''0'')"]
    digits_one_zeros [of 309] digits_one_zeros [of 4300]
  by (simp add: decimal_value_one_zeros float_overflow_def)
    (simp add: decimal_value_def digit_val_def)

text \<open>
  The claim as written fails at exactly \<open>10^15\<close>: the test is \<^verbatim>\<open>val > 1e15\<close>, so the
  value is returned unchanged, not divided. It also fails for numbers too large for a
  double, where the division raises.
\<close>

theorem unit_scale_threshold_counterexample:
  "calc_apr_wei_to_eth (IntV (10 ^ 15)) = Inr (10 ^ 15) \<and>
   calc_apr_wei_to_eth (IntV (10 ^ 15)) \<noteq> Inr (10 ^ 15 / 10 ^ 18) \<and>
   format_aggregate_wei_to_eth (FloatV (10 ^ 15)) = Inr (10 ^ 15) \<and>
   calc_apr_wei_to_eth (IntV (10 ^ 400)) = Inl OverflowError \<and>
   format_aggregate_wei_to_eth (IntV (10 ^ 400)) = Inl OverflowError"
  by (simp add: calc_apr_wei_to_eth_def format_aggregate_wei_to_eth_def int_div_1e18_def
      float_of_int_def float_overflow_def)

subsection \<open>Capture rate\<close>

lemma and_then_Inr: "and_then m f = Inr y \<Longrightarrow> \<exists>x. m = Inr x \<and> f x = Inr y"
  by (cases m) (simp_all add: and_then_def)

lemma analyze_entry_totals:
  assumes "analyze_entry e = Inr a"
  shows "analyze_missed_wei_to_eth (raw_total_reward e) = Inr (total_reward a) \<and>
         analyze_missed_wei_to_eth (raw_total_missed e) = Inr (total_missed a) \<and>
         analyze_missed_wei_to_eth (raw_total_penalty e) = Inr (total_penalty a) \<and>
         total_possible a = total_reward a + total_missed a + total_penalty a \<and>
         capture_rate a = pct (total_reward a) (total_possible a)"
  using assms unfolding analyze_entry_def Let_def
  by (auto dest!: and_then_Inr)

lemmas wei_eval =
  analyze_entry_def and_then_def get_or_zero_def analyze_missed_wei_to_eth_def
  py_int_def int_of_str_def strip_def is_space_def digit_val_def Let_def pct_def
  int_div_1e18_def float_of_int_def float_overflow_def int_max_str_digits_def

lemma analyze_32_finney:
  "analyze_entry (totals_only 7 ''32000000000000000'' ''0'' ''0'') =
     Inr \<lparr> index = 7, total_reward = 32 / 1000, total_missed = 0, total_penalty = 0,
           total_possible = 32 / 1000, capture_rate = 100,
           missed = \<lparr> m_head = 0, m_source = 0, m_target = 0, m_sync = 0,
                       m_proposal_cl = 0, m_proposal_el = 0 \<rparr>,
           penalties = \<lparr> p_head = 0, p_source = 0, p_target = 0, p_sync = 0,
                          p_inactivity_leak = 0 \<rparr> \<rparr>"
  by (simp add: wei_eval)

text \<open>
  Claim C1, as the code has it. The capture rate that \<^verbatim>\<open>analyze_entry\<close> returns is
  \<open>earned / (earned + missed + penalty) * 100\<close>, and 0 when that denominator is 0;
  \<^verbatim>\<open>calc_efficiency\<close> is the same quotient, and 100 when the denominator is 0. Neither
  divides by zero.
\<close>

theorem capture_rate_rule:
  "(analyze_entry e = Inr a \<longrightarrow>
      capture_rate a =
        (if total_reward a + total_missed a + total_penalty a = 0 then 0
         else total_reward a / (total_reward a + total_missed a + total_penalty a) * 100)) \<and>
   pct earned (earned + missed' + penalty') =
     (if earned + missed' + penalty' = 0 then 0
      else earned / (earned + missed' + penalty') * 100) \<and>
   calc_efficiency earned penalty' missed' =
     (if earned + missed' + penalty' = 0 then 100
      else earned / (earned + missed' + penalty') * 100)"
proof -
  have "calc_efficiency earned penalty' missed' =
     (if earned + missed' + penalty' = 0 then 100
      else earned / (earned + missed' + penalty') * 100)"
    by (simp add: calc_efficiency_def Let_def add.commute add.left_commute)
  moreover have "analyze_entry e = Inr a \<longrightarrow>
      capture_rate a =
        (if total_reward a + total_missed a + total_penalty a = 0 then 0
         else total_reward a / (total_reward a + total_missed a + total_penalty a) * 100)"
    using analyze_entry_totals [of e a] by (simp add: pct_def)
  ultimately show ?thesis by (simp add: pct_def)
qed

theorem capture_rate_rule_witness:
  "\<exists>a. analyze_entry (totals_only 7 ''32000000000000000'' ''0'' ''0'') = Inr a \<and>
       total_reward a = 32 / 1000 \<and> total_missed a = 0 \<and> total_penalty a = 0 \<and>
       capture_rate a = 100"
proof -
  obtain a where a: "analyze_entry (totals_only 7 ''32000000000000000'' ''0'' ''0'') = Inr a"
    and t: "total_reward a = 32 / 1000" "total_missed a = 0" "total_penalty a = 0"
    using analyze_32_finney by simp
  from capture_rate_rule [of "totals_only 7 ''32000000000000000'' ''0'' ''0''" a 0 0 0] a t
  have "capture_rate a = 100" by simp
  with a t show ?thesis by blast
qed

text \<open>
  The claim as written fails on \<^verbatim>\<open>calc_efficiency\<close>: with nothing earned, missed or
  penalised it returns 100, not 0.
\<close>

theorem calc_efficiency_zero_counterexample:
  "calc_efficiency 0 0 0 = 100 \<and> calc_efficiency 0 0 0 \<noteq> 0"
  by (simp add: calc_efficiency_def)

subsection \<open>The aggregate capture rate\<close>

lemma main_loop_sums:
  "map analyze_entry es = map Inr as \<Longrightarrow>
   main_loop es te tm =
     Inr (te + sum_list (map total_reward as), tm + sum_list (map total_missed as))"
proof (induction es arbitrary: as te tm)
  case Nil
  then show ?case by simp
next
  case (Cons e es)
  then obtain a as' where as: "as = a # as'" and a: "analyze_entry e = Inr a"
    and rest: "map analyze_entry es = map Inr as'"
    by (cases as) auto
  show ?case using Cons.IH [OF rest] a by (simp add: as add.assoc)
qed

lemma pct_zero_part: "pct 0 d = 0"
  by (simp add: pct_def)

lemma pct_larger_denominator:
  assumes "0 \<le> E" "0 \<le> M" "0 \<le> P"
  shows "pct E (E + M + P) \<le> pct E (E + M)"
proof (cases "E + M = 0")
  case True
  with assms have "E = 0" by simp
  then show ?thesis by (simp add: pct_def)
next
  case False
  with assms have d1: "0 < E + M" by simp
  with assms have d2: "0 < E + M + P" by simp
  have "E / (E + M + P) \<le> E / (E + M)"
    using assms d1 by (intro divide_left_mono) simp_all
  then have le: "E / (E + M + P) * 100 \<le> E / (E + M) * 100"
    by (rule mult_right_mono) simp
  have nz: "E + M \<noteq> 0" "E + M + P \<noteq> 0" using d1 d2 by simp_all
  have "pct E (E + M) = E / (E + M) * 100" "pct E (E + M + P) = E / (E + M + P) * 100"
    unfolding pct_def using nz by (simp_all only: if_False)
  with le show ?thesis by (simp only:)
qed

lemma analyze_0_1_1:
  "analyze_entry (totals_only i ''0'' ''1'' ''1'') =
     Inr \<lparr> index = i, total_reward = 0, total_missed = 1 / 10 ^ 18,
           total_penalty = 1 / 10 ^ 18,
           total_possible = 2 / 10 ^ 18, capture_rate = 0,
           missed = \<lparr> m_head = 0, m_source = 0, m_target = 0, m_sync = 0,
                       m_proposal_cl = 0, m_proposal_el = 0 \<rparr>,
           penalties = \<lparr> p_head = 0, p_source = 0, p_target = 0, p_sync = 0,
                          p_inactivity_leak = 0 \<rparr> \<rparr>"
  by (simp add: wei_eval)

lemma analyze_3_1_1:
  "analyze_entry (totals_only i ''3'' ''1'' ''1'') =
     Inr \<lparr> index = i, total_reward = 3 / 10 ^ 18, total_missed = 1 / 10 ^ 18,
           total_penalty = 1 / 10 ^ 18,
           total_possible = 5 / 10 ^ 18, capture_rate = 60,
           missed = \<lparr> m_head = 0, m_source = 0, m_target = 0, m_sync = 0,
                       m_proposal_cl = 0, m_proposal_el = 0 \<rparr>,
           penalties = \<lparr> p_head = 0, p_source = 0, p_target = 0, p_sync = 0,
                          p_inactivity_leak = 0 \<rparr> \<rparr>"
  by (simp add: wei_eval)

text \<open>
  Claim C10, as the code has it. For a batch of more than one entry, all of which
  analyse without error, the aggregate capture rate printed by \<^verbatim>\<open>main\<close> is
  \<open>E / (E + M) * 100\<close> (0 when \<open>E + M = 0\<close>), where \<open>E\<close> and \<open>M\<close> are the sums of the
  earned and missed amounts: penalties are not in the denominator. With the sum \<open>P\<close> of
  the penalties, it equals the per-validator formula \<open>E / (E + M + P) * 100\<close> on the
  totals when \<open>E = 0\<close> or \<open>P = 0\<close>, and is never below it when no total is negative.
\<close>

theorem aggregate_capture_rate:
  assumes "map analyze_entry es = map Inr as" and "1 < length es"
  shows "main_aggregate es =
           Inr (Some (pct (sum_list (map total_reward as))
                          (sum_list (map total_reward as) + sum_list (map total_missed as)))) \<and>
         (sum_list (map total_reward as) = 0 \<or> sum_list (map total_penalty as) = 0 \<longrightarrow>
            main_aggregate es =
              Inr (Some (pct (sum_list (map total_reward as))
                (sum_list (map total_reward as) + sum_list (map total_missed as)
                   + sum_list (map total_penalty as))))) \<and>
         (0 \<le> sum_list (map total_reward as) \<and> 0 \<le> sum_list (map total_missed as) \<and>
          0 \<le> sum_list (map total_penalty as) \<longrightarrow>
            (\<exists>agg. main_aggregate es = Inr (Some agg) \<and>
               pct (sum_list (map total_reward as))
                 (sum_list (map total_reward as) + sum_list (map total_missed as)
                    + sum_list (map total_penalty as)) \<le> agg))"
proof -
  from assms(2) have ne: "es \<noteq> []" by auto
  have agg: "main_aggregate es =
           Inr (Some (pct (sum_list (map total_reward as))
                          (sum_list (map total_reward as) + sum_list (map total_missed as))))"
    using main_loop_sums [OF assms(1), of 0 0] assms(2) ne
    by (simp add: main_aggregate_def Let_def)
  then show ?thesis using pct_larger_denominator by (auto simp add: pct_zero_part)
qed

theorem aggregate_capture_rate_witness:
  "(\<exists>as. map analyze_entry [totals_only 1 ''3'' ''1'' ''1'', totals_only 2 ''3'' ''1'' ''1'']
           = map Inr as \<and>
        1 < length [totals_only 1 ''3'' ''1'' ''1'', totals_only 2 ''3'' ''1'' ''1''] \<and>
        0 \<le> sum_list (map total_reward as) \<and> 0 \<le> sum_list (map total_missed as) \<and>
        0 \<le> sum_list (map total_penalty as) \<and>
        main_aggregate [totals_only 1 ''3'' ''1'' ''1'', totals_only 2 ''3'' ''1'' ''1'']
          = Inr (Some 75) \<and>
        pct (sum_list (map total_reward as))
            (sum_list (map total_reward as) + sum_list (map total_missed as)
               + sum_list (map total_penalty as)) = 60) \<and>
   (\<exists>as. map analyze_entry [totals_only 1 ''0'' ''1'' ''1'', totals_only 2 ''0'' ''1'' ''1'']
           = map Inr as \<and>
        sum_list (map total_reward as) = 0 \<and>
        main_aggregate [totals_only 1 ''0'' ''1'' ''1'', totals_only 2 ''0'' ''1'' ''1'']
          = Inr (Some (pct (sum_list (map total_reward as))
                (sum_list (map total_reward as) + sum_list (map total_missed as)
                   + sum_list (map total_penalty as)))))"
proof -
  let ?es = "[totals_only 1 ''3'' ''1'' ''1'', totals_only 2 ''3'' ''1'' ''1'']"
  obtain a1 a2 where m: "map analyze_entry ?es = map Inr [a1, a2]"
    and a1: "total_reward a1 = 3 / 10 ^ 18" "total_missed a1 = 1 / 10 ^ 18"
      "total_penalty a1 = 1 / 10 ^ 18"
    and a2: "total_reward a2 = 3 / 10 ^ 18" "total_missed a2 = 1 / 10 ^ 18"
      "total_penalty a2 = 1 / 10 ^ 18"
    using analyze_3_1_1 [of 1] analyze_3_1_1 [of 2] by simp
  have l: "1 < length ?es" by simp
  from aggregate_capture_rate [OF m l]
  have "main_aggregate ?es = Inr (Some 75)" by (simp add: pct_def a1 a2)
  moreover have "pct (sum_list (map total_reward [a1, a2]))
            (sum_list (map total_reward [a1, a2]) + sum_list (map total_missed [a1, a2])
               + sum_list (map total_penalty [a1, a2])) = 60"
    by (simp add: pct_def a1 a2)
  moreover have "0 \<le> sum_list (map total_reward [a1, a2])"
    "0 \<le> sum_list (map total_missed [a1, a2])" "0 \<le> sum_list (map total_penalty [a1, a2])"
    by (simp_all add: a1 a2)
  ultimately have first: "\<exists>as. map analyze_entry ?es = map Inr as \<and> 1 < length ?es \<and>
        0 \<le> sum_list (map total_reward as) \<and> 0 \<le> sum_list (map total_missed as) \<and>
        0 \<le> sum_list (map total_penalty as) \<and>
        main_aggregate ?es = Inr (Some 75) \<and>
        pct (sum_list (map total_reward as))
            (sum_list (map total_reward as) + sum_list (map total_missed as)
               + sum_list (map total_penalty as)) = 60"
    using m l by blast
  let ?zs = "[totals_only 1 ''0'' ''1'' ''1'', totals_only 2 ''0'' ''1'' ''1'']"
  obtain b1 b2 where n: "map analyze_entry ?zs = map Inr [b1, b2]"
    and b: "total_reward b1 = 0" "total_reward b2 = 0"
    using analyze_0_1_1 [of 1] analyze_0_1_1 [of 2] by simp
  have k: "1 < length ?zs" by simp
  have z: "sum_list (map total_reward [b1, b2]) = 0" by (simp add: b)
  from aggregate_capture_rate [OF n k] z
  have "main_aggregate ?zs
          = Inr (Some (pct (sum_list (map total_reward [b1, b2]))
                (sum_list (map total_reward [b1, b2]) + sum_list (map total_missed [b1, b2])
                   + sum_list (map total_penalty [b1, b2]))))"
    by blast
  with n z have second: "\<exists>as. map analyze_entry ?zs = map Inr as \<and>
        sum_list (map total_reward as) = 0 \<and>
        main_aggregate ?zs
          = Inr (Some (pct (sum_list (map total_reward as))
                (sum_list (map total_reward as) + sum_list (map total_missed as)
                   + sum_list (map total_penalty as))))"
    by blast
  from first second show ?thesis by (rule conjI)
qed

text \<open>
  The claim as written fails when nothing was earned: two validators with a penalty of
  1 wei each, 1 wei missed each and no reward have the aggregate capture rate 0, which is
  also what the per-validator formula gives on the totals.
\<close>

theorem aggregate_capture_rate_counterexample:
  "\<exists>a1 a2.
      map analyze_entry [totals_only 1 ''0'' ''1'' ''1'', totals_only 2 ''0'' ''1'' ''1'']
        = map Inr [a1, a2] \<and>
      total_penalty a1 \<noteq> 0 \<and> total_penalty a2 \<noteq> 0 \<and>
      main_aggregate [totals_only 1 ''0'' ''1'' ''1'', totals_only 2 ''0'' ''1'' ''1''] =
        Inr (Some (pct (total_reward a1 + total_reward a2)
                       ((total_reward a1 + total_reward a2)
                        + (total_missed a1 + total_missed a2)
                        + (total_penalty a1 + total_penalty a2))))"
  by (simp add: main_aggregate_def analyze_0_1_1 pct_def)

end
